theory Spec2Isabelle
  imports Main
begin

section \<open>Errors\<close>

text \<open>
  Every exception the module raises, or lets through, is a value. The constructors name the
  raise sites of \<^verbatim>\<open>ecdsa_key_recovery/__init__.py\<close>; implicit interpreter exceptions keep
  their Python names:
  \<^item> \<open>InvalidSignatureFormat\<close>: \<^verbatim>\<open>raise ValueError("Invalid Signature Format! ...")\<close> in
    \<^verbatim>\<open>_load_signature\<close>;
  \<^item> \<open>InvalidHashFormat\<close>: \<^verbatim>\<open>raise ValueError("Invalid Hash Format! ...")\<close> in
    \<^verbatim>\<open>_load_hash\<close>;
  \<^item> \<open>NoModularInverse\<close>: \<^verbatim>\<open>raise ValueError("No modular multiplicative inverse ...")\<close>
    in \<^verbatim>\<open>inverse\<close>;
  \<^item> \<open>SignatureNotVerified\<close>: the failing \<^verbatim>\<open>assert self.pubkey.verify(...)\<close> and
    \<^verbatim>\<open>assert (self.pubkey.verifies(...))\<close> of the two constructors;
  \<^item> \<open>IncompatiblePair\<close>: the failing \<^verbatim>\<open>assert (self.pubkey.q == other.pubkey.q)\<close> and
    \<^verbatim>\<open>assert (self.sig.r == other.sig.r)\<close> of the DSA recovery;
  \<^item> \<open>CouldNotRecover\<close>: the \<^verbatim>\<open>assert False\<close> that ends the ECDSA recovery;
  \<^item> \<open>TypeError\<close>, \<open>AttributeError\<close>, \<open>ZeroDivisionError\<close>: raised by the interpreter;
  \<^item> \<open>LibraryError\<close>: any exception raised inside an external library call.

  Assertions are modelled as the interpreter runs them by default (\<^verbatim>\<open>__debug__\<close> true).
\<close>

datatype error =
    InvalidSignatureFormat
  | InvalidHashFormat
  | NoModularInverse
  | SignatureNotVerified
  | IncompatiblePair
  | CouldNotRecover
  | TypeError
  | AttributeError
  | ZeroDivisionError
  | LibraryError

text \<open>The error taxonomy of the specification, and the class of each raise site.\<close>

datatype spec_error = ValidationError | DomainError | RecoveryFailure

fun spec_class :: "error \<Rightarrow> spec_error option" where
  "spec_class InvalidSignatureFormat = Some ValidationError"
| "spec_class InvalidHashFormat = Some ValidationError"
| "spec_class SignatureNotVerified = Some ValidationError"
| "spec_class IncompatiblePair = Some ValidationError"
| "spec_class NoModularInverse = Some DomainError"
| "spec_class CouldNotRecover = Some RecoveryFailure"
| "spec_class _ = None"

section \<open>Modular inverse\<close>

text \<open>
  Python's \<^verbatim>\<open>//\<close> and \<^verbatim>\<open>%\<close> on integers are floor division and the remainder with the
  sign of the divisor, which is what \<open>div\<close> and \<open>mod\<close> are on \<^typ>\<open>int\<close>. They differ at a
  zero divisor only, where Python raises.
\<close>

definition py_mod :: "int \<Rightarrow> int \<Rightarrow> error + int" where
  "py_mod a b = (if b = 0 then Inl ZeroDivisionError else Inr (a mod b))"

text \<open>
  The nested \<^verbatim>\<open>extended_gcd(a, b)\<close>. The test \<^verbatim>\<open>a == 0\<close> comes before \<^verbatim>\<open>b % a\<close> and
  \<^verbatim>\<open>b // a\<close>, so no division by zero happens here.
\<close>

function extended_gcd :: "int \<Rightarrow> int \<Rightarrow> int \<times> int \<times> int" where
  "extended_gcd a b =
     (if a = 0 then (b, 0, 1)
      else (case extended_gcd (b mod a) a of
              (g, x1, y1) \<Rightarrow> (g, y1 - (b div a) * x1, x1)))"
  by pat_completeness auto
termination
  by (relation "measure (\<lambda>(a, b). nat \<bar>a\<bar>)") (auto simp: abs_mod_less)

declare extended_gcd.simps [simp del]

definition inverse_py :: "int \<Rightarrow> int \<Rightarrow> error + int" where
  "inverse_py a n =
     (case extended_gcd a n of
        (g, x, _) \<Rightarrow> if g \<noteq> 1 then Inl NoModularInverse else py_mod x n)"

section \<open>Python values\<close>

text \<open>
  The constructors accept any Python object for the signature and the digest and dispatch on
  its run-time shape, so the arguments are values of a small universe: integers, strings,
  byte strings, tuples, \<^verbatim>\<open>None\<close>, and objects given by their attributes (an association list
  from attribute names to values). Only objects carry attributes named \<^verbatim>\<open>r\<close>, \<^verbatim>\<open>s\<close> or
  \<^verbatim>\<open>tuple\<close>.
\<close>

type_synonym bytes = "char list"

datatype pyval =
    PyInt int
  | PyStr string
  | PyBytes bytes
  | PyTuple "pyval list"
  | PyNone
  | PyObject "(string \<times> pyval) list"

fun attributes :: "pyval \<Rightarrow> (string \<times> pyval) list" where
  "attributes (PyObject as) = as"
| "attributes _ = []"

definition hasattr :: "pyval \<Rightarrow> string \<Rightarrow> bool" where
  "hasattr v name = (map_of (attributes v) name \<noteq> None)"

definition getattr :: "pyval \<Rightarrow> string \<Rightarrow> error + pyval" where
  "getattr v name =
     (case map_of (attributes v) name of
        None \<Rightarrow> Inl AttributeError
      | Some a \<Rightarrow> Inr a)"

text \<open>Arithmetic on a value that is not an integer raises \<^verbatim>\<open>TypeError\<close>.\<close>

fun as_int :: "pyval \<Rightarrow> error + int" where
  "as_int (PyInt i) = Inr i"
| "as_int _ = Inl TypeError"

text \<open>Sequencing of computations that may raise: the first exception ends the computation.\<close>

definition bind :: "error + 'a \<Rightarrow> ('a \<Rightarrow> error + 'b) \<Rightarrow> error + 'b" where
  "bind m f = (case m of Inl e \<Rightarrow> Inl e | Inr v \<Rightarrow> f v)"

definition int_attr :: "pyval \<Rightarrow> string \<Rightarrow> error + int" where
  "int_attr v name = bind (getattr v name) as_int"

section \<open>SignatureParameter\<close>

text \<open>
  An instance of \<^verbatim>\<open>SignatureParameter\<close> has the attributes \<^verbatim>\<open>r\<close> and \<^verbatim>\<open>s\<close> and the
  property \<^verbatim>\<open>tuple\<close>, which returns \<^verbatim>\<open>(self.r, self.s)\<close>.
\<close>

definition SignatureParameter :: "pyval \<Rightarrow> pyval \<Rightarrow> pyval" where
  "SignatureParameter r s = PyObject [(''r'', r), (''s'', s), (''tuple'', PyTuple [r, s])]"

text \<open>
  The call \<^verbatim>\<open>SignatureParameter(*sig)\<close>: the constructor takes exactly two arguments, and
  the interpreter raises \<^verbatim>\<open>TypeError\<close> for a tuple of any other length.
\<close>

fun SignatureParameter_unpacked :: "pyval list \<Rightarrow> error + pyval" where
  "SignatureParameter_unpacked [r, s] = Inr (SignatureParameter r s)"
| "SignatureParameter_unpacked _ = Inl TypeError"

section \<open>RecoverableSignature\<close>

text \<open>
  The fields \<^verbatim>\<open>sig\<close>, \<^verbatim>\<open>h\<close>, \<^verbatim>\<open>pubkey\<close>, \<^verbatim>\<open>k\<close> and \<^verbatim>\<open>x\<close> of the base class; \<^verbatim>\<open>None\<close> in
  \<^verbatim>\<open>k\<close> and \<^verbatim>\<open>x\<close> is \<open>None\<close>. The calls to \<^verbatim>\<open>logger.debug\<close> have no effect on the
  instance and are left out.
\<close>

record 'pk recoverable_signature =
  rs_sig :: pyval
  rs_h :: int
  rs_pubkey :: 'pk
  rs_k :: "int option"
  rs_x :: "int option"

definition load_signature :: "pyval \<Rightarrow> error + pyval" where
  "load_signature sig =
     (if list_all (hasattr sig) [''r'', ''s''] then Inr sig
      else (case sig of
              PyTuple xs \<Rightarrow> SignatureParameter_unpacked xs
            | _ \<Rightarrow> Inl InvalidSignatureFormat))"

text \<open>
  Modelled from the spec: \<^verbatim>\<open>Crypto.Util.number.bytes_to_long\<close>, a function of the external
  PyCryptodome library, "converted to an integer via big-endian interpretation". The
  characters of a string are taken as its bytes.
\<close>

definition bytes_to_long :: "bytes \<Rightarrow> int" where
  "bytes_to_long bs = foldl (\<lambda>acc c. acc * 256 + of_char c) 0 bs"

fun load_hash :: "pyval \<Rightarrow> error + int" where
  "load_hash (PyInt i) = Inr i"
| "load_hash (PyStr s) = Inr (bytes_to_long s)"
| "load_hash (PyBytes b) = Inr (bytes_to_long b)"
| "load_hash _ = Inl InvalidHashFormat"

section \<open>DsaSignature\<close>

text \<open>
  The public key of a DSA signature is whatever object the caller passes
  (\<^verbatim>\<open>_load_pubkey\<close> returns it as it is); the class uses its attribute \<^verbatim>\<open>q\<close> and its
  method \<^verbatim>\<open>verify(h, (r, s))\<close>, which belongs to the key object and may itself raise.
\<close>

record dsa_pubkey =
  dsa_q :: int
  dsa_verify :: "int \<Rightarrow> pyval \<Rightarrow> error + bool"

type_synonym dsa_signature = "dsa_pubkey recoverable_signature"

definition dsa_load_pubkey :: "dsa_pubkey \<Rightarrow> error + dsa_pubkey" where
  "dsa_load_pubkey pubkey = Inr pubkey"

text \<open>
  \<^verbatim>\<open>DsaSignature.__init__\<close>: the three loaders of the base constructor in their order, the
  two \<^verbatim>\<open>None\<close> fields, then \<^verbatim>\<open>assert self.pubkey.verify(self.h, self.sig.tuple)\<close>.
\<close>

definition DsaSignature :: "pyval \<Rightarrow> pyval \<Rightarrow> dsa_pubkey \<Rightarrow> error + dsa_signature" where
  "DsaSignature sig h pubkey =
     bind (load_signature sig) (\<lambda>sg.
     bind (load_hash h) (\<lambda>hh.
     bind (dsa_load_pubkey pubkey) (\<lambda>pk.
     bind (getattr sg ''tuple'') (\<lambda>t.
     bind (dsa_verify pk hh t) (\<lambda>ok.
       if ok
       then Inr \<lparr>rs_sig = sg, rs_h = hh, rs_pubkey = pk, rs_k = None, rs_x = None\<rparr>
       else Inl SignatureNotVerified)))))"

text \<open>
  \<^verbatim>\<open>DsaSignature.recover_nonce_reuse\<close>. The method mutates \<^verbatim>\<open>self\<close> and returns it, or
  raises; the model returns the final state of \<^verbatim>\<open>self\<close> together with the exception, if
  any. The right-hand sides of the two assignments are \<open>dsa_nonce\<close> and \<open>dsa_secret\<close>;
  the second one reads the field \<^verbatim>\<open>self.k\<close> that the first assignment has written.
\<close>

definition dsa_nonce :: "dsa_signature \<Rightarrow> dsa_signature \<Rightarrow> error + int" where
  "dsa_nonce self other =
     bind (int_attr (rs_sig self) ''s'') (\<lambda>s1.
     bind (int_attr (rs_sig other) ''s'') (\<lambda>s2.
     bind (inverse_py (s1 - s2) (dsa_q (rs_pubkey self))) (\<lambda>i.
       py_mod ((rs_h self - rs_h other) * i) (dsa_q (rs_pubkey self)))))"

definition dsa_secret :: "dsa_signature \<Rightarrow> error + int" where
  "dsa_secret self =
     (case rs_k self of
        None \<Rightarrow> Inl TypeError
      | Some k \<Rightarrow>
          bind (int_attr (rs_sig self) ''s'') (\<lambda>s1.
          bind (int_attr (rs_sig self) ''r'') (\<lambda>r.
          bind (inverse_py r (dsa_q (rs_pubkey self))) (\<lambda>i.
            py_mod ((k * s1 - rs_h self) * i) (dsa_q (rs_pubkey self))))))"

definition dsa_recover_nonce_reuse ::
    "dsa_signature \<Rightarrow> dsa_signature \<Rightarrow> dsa_signature \<times> error option" where
  "dsa_recover_nonce_reuse self other =
     (if dsa_q (rs_pubkey self) \<noteq> dsa_q (rs_pubkey other) then (self, Some IncompatiblePair)
      else
        (case bind (getattr (rs_sig self) ''r'') (\<lambda>r1.
              bind (getattr (rs_sig other) ''r'') (\<lambda>r2. Inr (r1 = r2))) of
           Inl e \<Rightarrow> (self, Some e)
         | Inr False \<Rightarrow> (self, Some IncompatiblePair)
         | Inr True \<Rightarrow>
             (case dsa_nonce self other of
                Inl e \<Rightarrow> (self, Some e)
              | Inr k \<Rightarrow>
                  (let self1 = self\<lparr>rs_k := Some k\<rparr> in
                   case dsa_secret self1 of
                     Inl e \<Rightarrow> (self1, Some e)
                   | Inr x \<Rightarrow> (self1\<lparr>rs_x := Some x\<rparr>, None)))))"

section \<open>The external \<^verbatim>\<open>ecdsa\<close> library\<close>

text \<open>
  The ECDSA class calls the third-party \<^verbatim>\<open>ecdsa\<close> package, which is not part of the
  repository. Its operations are parameters of the model, and each of them may raise:
  \<^item> \<open>inverse_mod\<close>: \<^verbatim>\<open>ecdsa.numbertheory.inverse_mod(a, m)\<close>;
  \<^item> \<open>from_secret_exponent\<close>: \<^verbatim>\<open>SigningKey.from_secret_exponent(d, curve=curve)\<close>;
  \<^item> \<open>get_verifying_pubkey\<close>: \<^verbatim>\<open>signingkey.get_verifying_key().pubkey\<close>;
  \<^item> \<open>generator_order\<close>: \<^verbatim>\<open>pubkey.generator.order()\<close> of a \<^verbatim>\<open>Public_key\<close>;
  \<^item> \<open>verifies\<close>: \<^verbatim>\<open>pubkey.verifies(h, sig)\<close> of a \<^verbatim>\<open>Public_key\<close>;
  \<^item> \<open>from_string\<close>: \<^verbatim>\<open>VerifyingKey.from_string(pubkey, curve=curve).pubkey\<close>.
  The type \<open>'pk\<close> is that of \<^verbatim>\<open>Public_key\<close> instances, \<open>'sk\<close> that of signing keys, \<open>'c\<close>
  that of curves.
\<close>

record ('pk, 'sk, 'c) ecdsa_lib =
  inverse_mod :: "int \<Rightarrow> int \<Rightarrow> error + int"
  from_secret_exponent :: "int \<Rightarrow> 'c \<Rightarrow> error + 'sk"
  get_verifying_pubkey :: "'sk \<Rightarrow> 'pk"
  generator_order :: "'pk \<Rightarrow> int"
  verifies :: "'pk \<Rightarrow> int \<Rightarrow> pyval \<Rightarrow> error + bool"
  from_string :: "bytes \<Rightarrow> 'c \<Rightarrow> error + 'pk"

text \<open>
  The \<^verbatim>\<open>pubkey\<close> argument of the ECDSA constructor: an instance of
  \<^verbatim>\<open>ecdsa.ecdsa.Public_key\<close>, a string, a byte string, or any other object. Of such an
  object the class uses \<^verbatim>\<open>generator.order()\<close> and \<^verbatim>\<open>verifies(h, sig)\<close>; a field that is
  \<open>None\<close> says that the object does not have the attribute.
\<close>

record key_object =
  ko_order :: "int option"
  ko_verifies :: "(int \<Rightarrow> pyval \<Rightarrow> error + bool) option"

datatype 'pk ec_pubkey =
    Public_key 'pk
  | KeyStr string
  | KeyBytes bytes
  | KeyObject key_object

definition pubkey_order :: "('pk, 'sk, 'c) ecdsa_lib \<Rightarrow> 'pk ec_pubkey \<Rightarrow> error + int" where
  "pubkey_order lib pubkey =
     (case pubkey of
        Public_key pk \<Rightarrow> Inr (generator_order lib pk)
      | KeyObject obj \<Rightarrow> (case ko_order obj of None \<Rightarrow> Inl AttributeError | Some n \<Rightarrow> Inr n)
      | _ \<Rightarrow> Inl AttributeError)"

definition pubkey_verifies ::
    "('pk, 'sk, 'c) ecdsa_lib \<Rightarrow> 'pk ec_pubkey \<Rightarrow> int \<Rightarrow> pyval \<Rightarrow> error + bool" where
  "pubkey_verifies lib pubkey h sig =
     (case pubkey of
        Public_key pk \<Rightarrow> verifies lib pk h sig
      | KeyObject obj \<Rightarrow>
          (case ko_verifies obj of None \<Rightarrow> Inl AttributeError | Some f \<Rightarrow> f h sig)
      | _ \<Rightarrow> Inl AttributeError)"

section \<open>EcDsaSignature\<close>

record ('pk, 'sk, 'c) ecdsa_signature = "'pk ec_pubkey recoverable_signature" +
  ec_curve :: 'c
  ec_signingkey :: "'sk option"
  ec_n :: int

definition ec_load_pubkey ::
    "('pk, 'sk, 'c) ecdsa_lib \<Rightarrow> 'c \<Rightarrow> 'pk ec_pubkey \<Rightarrow> error + 'pk ec_pubkey" where
  "ec_load_pubkey lib curve pubkey =
     (case pubkey of
        Public_key pk \<Rightarrow> Inr (Public_key pk)
      | KeyStr s \<Rightarrow> bind (from_string lib s curve) (\<lambda>pk. Inr (Public_key pk))
      | KeyBytes b \<Rightarrow> bind (from_string lib b curve) (\<lambda>pk. Inr (Public_key pk))
      | KeyObject obj \<Rightarrow> Inr (KeyObject obj))"

text \<open>
  \<^verbatim>\<open>EcDsaSignature.__init__\<close>: the curve is stored, the base constructor loads signature,
  digest and public key, \<^verbatim>\<open>self.signingkey = None\<close>,
  \<^verbatim>\<open>self.n = self.pubkey.generator.order()\<close>, and last
  \<^verbatim>\<open>assert (self.pubkey.verifies(self.h, self.sig))\<close>. The curve, whose default is a
  constant of the library, is an argument.
\<close>

definition EcDsaSignature ::
    "('pk, 'sk, 'c) ecdsa_lib \<Rightarrow> pyval \<Rightarrow> pyval \<Rightarrow> 'pk ec_pubkey \<Rightarrow> 'c
     \<Rightarrow> error + ('pk, 'sk, 'c) ecdsa_signature" where
  "EcDsaSignature lib sig h pubkey curve =
     bind (load_signature sig) (\<lambda>sg.
     bind (load_hash h) (\<lambda>hh.
     bind (ec_load_pubkey lib curve pubkey) (\<lambda>pk.
     bind (pubkey_order lib pk) (\<lambda>n.
     bind (pubkey_verifies lib pk hh sg) (\<lambda>ok.
       if ok
       then Inr \<lparr>rs_sig = sg, rs_h = hh, rs_pubkey = pk, rs_k = None, rs_x = None,
                 ec_curve = curve, ec_signingkey = None, ec_n = n\<rparr>
       else Inl SignatureNotVerified)))))"

text \<open>
  \<^verbatim>\<open>EcDsaSignature.recover_nonce_reuse\<close>. The tuple of the four candidates is built before
  the loop starts. \<open>trial\<close> is the body of the loop for one candidate, up to the answer of
  the trial key's \<^verbatim>\<open>verifies\<close>; \<open>try_candidates\<close> is the loop, which returns the nonce,
  the secret and the signing key of the first candidate whose trial key verifies, and ends in
  \<^verbatim>\<open>assert False\<close> when the candidates are used up.
\<close>

definition candidates :: "int \<Rightarrow> int \<Rightarrow> int list" where
  "candidates s1 s2 = [s1 - s2, s1 + s2, - s1 - s2, - s1 + s2]"

definition trial ::
    "('pk, 'sk, 'c) ecdsa_lib \<Rightarrow> ('pk, 'sk, 'c) ecdsa_signature \<Rightarrow> int \<Rightarrow> int \<Rightarrow> int
     \<Rightarrow> int \<Rightarrow> error + (int \<times> int \<times> 'sk \<times> bool)" where
  "trial lib self z r_inv s1 candidate =
     bind (inverse_mod lib candidate (ec_n self)) (\<lambda>ci.
     bind (py_mod (z * ci) (ec_n self)) (\<lambda>k.
     bind (py_mod (s1 * k - rs_h self) (ec_n self)) (\<lambda>t.
     bind (py_mod (t * r_inv) (ec_n self)) (\<lambda>d.
     bind (from_secret_exponent lib d (ec_curve self)) (\<lambda>signingkey.
     bind (verifies lib (get_verifying_pubkey lib signingkey) (rs_h self) (rs_sig self)) (\<lambda>ok.
       Inr (k, d, signingkey, ok)))))))"

fun try_candidates ::
    "('pk, 'sk, 'c) ecdsa_lib \<Rightarrow> ('pk, 'sk, 'c) ecdsa_signature \<Rightarrow> int \<Rightarrow> int \<Rightarrow> int
     \<Rightarrow> int list \<Rightarrow> error + (int \<times> int \<times> 'sk)" where
  "try_candidates lib self z r_inv s1 [] = Inl CouldNotRecover"
| "try_candidates lib self z r_inv s1 (candidate # rest) =
     bind (trial lib self z r_inv s1 candidate) (\<lambda>(k, d, signingkey, ok).
       if ok then Inr (k, d, signingkey)
       else try_candidates lib self z r_inv s1 rest)"

definition ecdsa_search ::
    "('pk, 'sk, 'c) ecdsa_lib \<Rightarrow> ('pk, 'sk, 'c) ecdsa_signature
     \<Rightarrow> ('pk2, 'sk2, 'c2) ecdsa_signature \<Rightarrow> error + (int \<times> int \<times> 'sk)" where
  "ecdsa_search lib self other =
     bind (int_attr (rs_sig self) ''r'') (\<lambda>r.
     bind (inverse_mod lib r (ec_n self)) (\<lambda>r_inv.
     bind (int_attr (rs_sig self) ''s'') (\<lambda>s1.
     bind (int_attr (rs_sig other) ''s'') (\<lambda>s2.
       try_candidates lib self (rs_h self - rs_h other) r_inv s1 (candidates s1 s2)))))"

definition ecdsa_recover_nonce_reuse ::
    "('pk, 'sk, 'c) ecdsa_lib \<Rightarrow> ('pk, 'sk, 'c) ecdsa_signature
     \<Rightarrow> ('pk2, 'sk2, 'c2) ecdsa_signature
     \<Rightarrow> ('pk, 'sk, 'c) ecdsa_signature \<times> error option" where
  "ecdsa_recover_nonce_reuse lib self other =
     (case ecdsa_search lib self other of
        Inl e \<Rightarrow> (self, Some e)
      | Inr (k, d, signingkey) \<Rightarrow>
          (self\<lparr>ec_signingkey := Some signingkey, rs_k := Some k, rs_x := Some d\<rparr>, None))"

section \<open>An instance of the library on a small curve\<close>

text \<open>
  To evaluate the classes on concrete signatures, the library interface is instantiated with
  textbook ECDSA over a short Weierstrass curve \<open>y\<^sup>2 = x\<^sup>3 + a x + b\<close> modulo \<open>p\<close>: affine
  points (\<open>None\<close> is the point at infinity), \<open>inverse_mod\<close> reducing its argument before
  it runs Euclid's algorithm, secret exponents accepted in \<open>1 \<dots> n - 1\<close>, and the usual
  verification equation. The curve used below is \<open>y\<^sup>2 = x\<^sup>3 + 7\<close> modulo \<open>43\<close>, whose
  \<open>31\<close> points are the multiples of \<open>(2, 12)\<close>.
\<close>

type_synonym point = "(int \<times> int) option"

record curve =
  curve_p :: int
  curve_a :: int
  curve_G :: point
  curve_n :: int

definition small_inverse_mod :: "int \<Rightarrow> int \<Rightarrow> error + int" where
  "small_inverse_mod a m = bind (py_mod a m) (\<lambda>a'. inverse_py a' m)"

definition field_inv :: "curve \<Rightarrow> int \<Rightarrow> int" where
  "field_inv cv v =
     (case small_inverse_mod v (curve_p cv) of Inl _ \<Rightarrow> 0 | Inr i \<Rightarrow> i)"

fun point_add :: "curve \<Rightarrow> point \<Rightarrow> point \<Rightarrow> point" where
  "point_add cv None Q = Q"
| "point_add cv P None = P"
| "point_add cv (Some (x1, y1)) (Some (x2, y2)) =
     (if x1 = x2 \<and> (y1 + y2) mod curve_p cv = 0 then None
      else
        (let l = (if x1 = x2 then (3 * x1 * x1 + curve_a cv) * field_inv cv (2 * y1)
                  else (y2 - y1) * field_inv cv (x2 - x1)) mod curve_p cv;
             x3 = (l * l - x1 - x2) mod curve_p cv
         in Some (x3, (l * (x1 - x3) - y1) mod curve_p cv)))"

fun point_mul :: "curve \<Rightarrow> nat \<Rightarrow> point \<Rightarrow> point" where
  "point_mul cv 0 P = None"
| "point_mul cv (Suc m) P = point_add cv P (point_mul cv m P)"

definition small_verifies :: "curve \<times> point \<Rightarrow> int \<Rightarrow> pyval \<Rightarrow> error + bool" where
  "small_verifies pk h sig =
     (case pk of (cv, Q) \<Rightarrow>
        bind (int_attr sig ''r'') (\<lambda>r.
        bind (int_attr sig ''s'') (\<lambda>s.
          if r < 1 \<or> r > curve_n cv - 1 then Inr False
          else if s < 1 \<or> s > curve_n cv - 1 then Inr False
          else
            bind (small_inverse_mod s (curve_n cv)) (\<lambda>c.
              (case point_add cv
                      (point_mul cv (nat ((h * c) mod curve_n cv)) (curve_G cv))
                      (point_mul cv (nat ((r * c) mod curve_n cv)) Q) of
                 None \<Rightarrow> Inl LibraryError
               | Some (x, y) \<Rightarrow> Inr (x mod curve_n cv = r))))))"

definition small_lib :: "(curve \<times> point, curve \<times> int, curve) ecdsa_lib" where
  "small_lib =
     \<lparr>inverse_mod = small_inverse_mod,
      from_secret_exponent =
        (\<lambda>d cv. if 1 \<le> d \<and> d < curve_n cv then Inr (cv, d) else Inl LibraryError),
      get_verifying_pubkey = (\<lambda>(cv, d). (cv, point_mul cv (nat d) (curve_G cv))),
      generator_order = (\<lambda>(cv, Q). curve_n cv),
      verifies = small_verifies,
      from_string = (\<lambda>b cv. Inl LibraryError)\<rparr>"

definition curve43 :: curve where
  "curve43 = \<lparr>curve_p = 43, curve_a = 0, curve_G = Some (2, 12), curve_n = 31\<rparr>"

section \<open>A DSA key object\<close>

text \<open>
  The DSA class takes its key object from the caller. For concrete runs the key is one with
  the textbook verification: \<open>w = s\<^sup>-\<^sup>1 mod q\<close>, \<open>v = (g\<^bsup>h w mod q\<^esup> y\<^bsup>r w mod q\<^esup> mod p) mod q\<close>,
  accepted when \<open>v = r\<close>, and rejected when \<open>r\<close> or \<open>s\<close> is outside \<open>1 \<dots> q - 1\<close>.
\<close>

definition small_dsa_verify :: "int \<Rightarrow> int \<Rightarrow> int \<Rightarrow> int \<Rightarrow> int \<Rightarrow> pyval \<Rightarrow> error + bool" where
  "small_dsa_verify p q g y h sig =
     (case sig of
        PyTuple [PyInt r, PyInt s] \<Rightarrow>
          if \<not> (0 < r \<and> r < q) \<or> \<not> (0 < s \<and> s < q) then Inr False
          else bind (small_inverse_mod s q) (\<lambda>w.
                 Inr ((g ^ nat ((h * w) mod q) * y ^ nat ((r * w) mod q)) mod p mod q = r))
      | _ \<Rightarrow> Inl TypeError)"

definition small_dsa_key :: "int \<Rightarrow> int \<Rightarrow> int \<Rightarrow> int \<Rightarrow> dsa_pubkey" where
  "small_dsa_key p q g y = \<lparr>dsa_q = q, dsa_verify = small_dsa_verify p q g y\<rparr>"

section \<open>Predicates used in the statements\<close>



definition accepted ::
    "('pk, 'sk, 'c) ecdsa_lib \<Rightarrow> ('pk, 'sk, 'c) ecdsa_signature \<Rightarrow> int \<Rightarrow> int \<Rightarrow> int
     \<Rightarrow> int \<Rightarrow> bool" where
  "accepted lib self z r_inv s1 candidate =
     (case trial lib self z r_inv s1 candidate of
        Inl e \<Rightarrow> False
      | Inr (k, d, signingkey, ok) \<Rightarrow> ok)"



section \<open>Concrete keys and instances\<close>

text \<open>
  The DSA key with \<open>p = 23\<close>, \<open>q = 11\<close>, \<open>g = 2\<close> and secret \<open>7\<close> (\<open>y = 2\<^sup>7 mod 23 = 13\<close>), a
  key with the composite order \<open>q = 9\<close> (\<open>p = 19\<close>, \<open>g = 4\<close>, secret \<open>2\<close>, \<open>y = 16\<close>), and the
  public key of the secret \<open>d\<close> on the small curve. \<open>dsa_instance\<close> and \<open>ecdsa_instance\<close>
  are the instances that the constructors return for an integer signature \<open>(r, s)\<close> on the
  digest \<open>h\<close>.
\<close>

definition key23 :: dsa_pubkey where
  "key23 = small_dsa_key 23 11 2 13"

definition key19 :: dsa_pubkey where
  "key19 = small_dsa_key 19 9 4 16"

definition dsa_instance :: "int \<Rightarrow> int \<Rightarrow> int \<Rightarrow> dsa_pubkey \<Rightarrow> dsa_signature" where
  "dsa_instance r s h key =
     \<lparr>rs_sig = SignatureParameter (PyInt r) (PyInt s), rs_h = h, rs_pubkey = key,
      rs_k = None, rs_x = None\<rparr>"

definition pubkey43 :: "nat \<Rightarrow> (curve \<times> point) ec_pubkey" where
  "pubkey43 d = Public_key (curve43, point_mul curve43 d (curve_G curve43))"

definition ecdsa_instance ::
    "int \<Rightarrow> int \<Rightarrow> int \<Rightarrow> nat \<Rightarrow> (curve \<times> point, curve \<times> int, curve) ecdsa_signature" where
  "ecdsa_instance r s h d =
     \<lparr>rs_sig = SignatureParameter (PyInt r) (PyInt s), rs_h = h, rs_pubkey = pubkey43 d,
      rs_k = None, rs_x = None, ec_curve = curve43, ec_signingkey = None, ec_n = 31\<rparr>"

section \<open>The extended Euclidean algorithm and the modular inverse\<close>

text \<open>
  The triple returned by \<open>extended_gcd a b\<close> satisfies B\'ezout's identity for its first
  component, whatever the signs of the arguments.
\<close>

lemma extended_gcd_bezout:
  "extended_gcd a b = (g, x, y) \<Longrightarrow> a * x + b * y = g"
proof (induction a b arbitrary: g x y rule: extended_gcd.induct)
  case (1 a b)
  show ?case
  proof (cases "a = 0")
    case True
    with "1.prems" show ?thesis by (simp add: extended_gcd.simps)
  next
    case False
    obtain g' x1 y1 where rec: "extended_gcd (b mod a) a = (g', x1, y1)"
      by (cases "extended_gcd (b mod a) a") auto
    from "1.IH" [OF False rec] have ih: "(b mod a) * x1 + a * y1 = g'" .
    from "1.prems" False rec have res: "g = g'" "x = y1 - (b div a) * x1" "y = x1"
      by (auto simp add: extended_gcd.simps [of a b])
    have "a * x + b * y = a * y1 + (b - a * (b div a)) * x1"
      unfolding res by (simp add: algebra_simps)
    also have "b - a * (b div a) = b mod a"
      by (simp add: minus_mult_div_eq_mod)
    also have "a * y1 + (b mod a) * x1 = g'"
      using ih by simp
    finally show ?thesis using res by simp
  qed
qed

lemma extended_gcd_nonneg:
  "0 \<le> a \<Longrightarrow> 0 \<le> b \<Longrightarrow> fst (extended_gcd a b) = gcd a b"
proof (induction a b rule: extended_gcd.induct)
  case (1 a b)
  show ?case
  proof (cases "a = 0")
    case True
    with "1.prems" show ?thesis by (simp add: extended_gcd.simps)
  next
    case False
    with "1.prems" have pos: "0 < a" by simp
    then have m: "0 \<le> b mod a" by simp
    have "fst (extended_gcd a b) = fst (extended_gcd (b mod a) a)"
      using False by (simp add: extended_gcd.simps [of a b] split: prod.splits)
    also have "\<dots> = gcd (b mod a) a"
      using "1.IH" [OF False m] "1.prems" by simp
    also have "\<dots> = gcd a b"
      by (metis gcd.commute gcd_red_int)
    finally show ?thesis .
  qed
qed

lemma extended_gcd_negative:
  "a < 0 \<Longrightarrow> fst (extended_gcd a b) < 0"
proof (induction a b rule: extended_gcd.induct)
  case (1 a b)
  from "1.prems" have nz: "a \<noteq> 0" by simp
  have step: "fst (extended_gcd a b) = fst (extended_gcd (b mod a) a)"
    using nz by (simp add: extended_gcd.simps [of a b] split: prod.splits)
  show ?case
  proof (cases "b mod a = 0")
    case True
    then show ?thesis using step "1.prems" by (simp add: extended_gcd.simps [of 0 a])
  next
    case False
    have "b mod a \<le> 0" using "1.prems" by simp
    with False have "b mod a < 0" by simp
    from "1.IH" [OF nz this] step show ?thesis by simp
  qed
qed


lemma inverse_py_sound:
  assumes "inverse_py a n = Inr x"
  shows "n \<noteq> 0 \<and> (a * x) mod n = 1 mod n \<and> x = x mod n"
proof -
  obtain g x0 y where e: "extended_gcd a n = (g, x0, y)"
    by (cases "extended_gcd a n") auto
  from assms e have g: "g = 1" and n: "n \<noteq> 0" and x: "x = x0 mod n"
    by (auto simp: inverse_py_def py_mod_def split: if_splits)
  from extended_gcd_bezout [OF e] g have "a * x0 = 1 - n * y" by simp
  then have "(a * x0) mod n = 1 mod n"
    by (metis diff_conv_add_uminus mod_mult_self2 mult_minus_right)
  moreover have "(a * x) mod n = (a * x0) mod n"
    unfolding x by (simp add: mod_mult_right_eq)
  ultimately show ?thesis using n x by simp
qed

lemma inverse_py_correct:
  assumes "0 \<le> a" and "1 < n" and "gcd a n = 1"
  shows "\<exists>x. inverse_py a n = Inr x \<and> 0 \<le> x \<and> x < n \<and> (a * x) mod n = 1"
proof -
  obtain g x0 y where e: "extended_gcd a n = (g, x0, y)"
    by (cases "extended_gcd a n") auto
  from extended_gcd_nonneg [of a n] assms e have "g = 1" by simp
  with e assms have r: "inverse_py a n = Inr (x0 mod n)"
    by (simp add: inverse_py_def py_mod_def)
  from inverse_py_sound [OF r] assms have "(a * (x0 mod n)) mod n = 1" by simp
  with r assms show ?thesis by simp
qed

lemma inverse_py_not_coprime:
  assumes "0 \<le> a" and "0 \<le> n" and "gcd a n \<noteq> 1"
  shows "inverse_py a n = Inl NoModularInverse"
proof -
  obtain g x0 y where e: "extended_gcd a n = (g, x0, y)"
    by (cases "extended_gcd a n") auto
  from extended_gcd_nonneg [of a n] assms e have "g \<noteq> 1" by simp
  with e show ?thesis by (simp add: inverse_py_def)
qed

lemma inverse_py_negative:
  assumes "a < 0"
  shows "inverse_py a n = Inl NoModularInverse"
proof -
  obtain g x0 y where e: "extended_gcd a n = (g, x0, y)"
    by (cases "extended_gcd a n") auto
  from extended_gcd_negative [OF assms, of n] e have "g \<noteq> 1" by simp
  with e show ?thesis by (simp add: inverse_py_def)
qed

text \<open>
  Claim C7 (modular inverse, correctness and failure condition). For \<open>n > 1\<close> the claim
  promises an inverse whenever \<open>gcd a n = 1\<close>. The code delivers it for \<open>a \<ge> 0\<close>
  (\<open>inverse_py_correct\<close>, \<open>inverse_py_not_coprime\<close>), and raises its
  \<^verbatim>\<open>ValueError\<close> for every negative \<open>a\<close> (\<open>inverse_py_negative\<close>): the remainders
  \<^verbatim>\<open>b % a\<close> then stay negative, the recursion ends with a negative first component, and
  the test \<^verbatim>\<open>gcd != 1\<close> rejects it. At \<open>a = -1\<close>, \<open>n = 5\<close> the arguments are coprime, the
  inverse \<open>4\<close> exists, and the code reports that none does.
\<close>

theorem inverse_negative_coprime_fails:
  "gcd (- 1 :: int) 5 = 1 \<and> extended_gcd (- 1) 5 = (- 1, 1, 0)
   \<and> inverse_py (- 1) 5 = Inl NoModularInverse
   \<and> spec_class NoModularInverse = Some DomainError"
  by (simp add: inverse_py_def extended_gcd.simps)

section \<open>Basic facts about the model\<close>

lemma bind_Inr [simp]: "bind (Inr v) f = f v"
  by (simp add: bind_def)

lemma bind_Inl [simp]: "bind (Inl e) f = Inl e"
  by (simp add: bind_def)

lemma bind_eq_Inr:
  "bind m f = Inr y \<longleftrightarrow> (\<exists>v. m = Inr v \<and> f v = Inr y)"
  by (cases m) simp_all

lemma int_attr_SignatureParameter [simp]:
  "int_attr (SignatureParameter (PyInt r) (PyInt s)) ''r'' = Inr r"
  "int_attr (SignatureParameter (PyInt r) (PyInt s)) ''s'' = Inr s"
  by (simp_all add: int_attr_def getattr_def SignatureParameter_def)

lemma getattr_SignatureParameter [simp]:
  "getattr (SignatureParameter r s) ''r'' = Inr r"
  "getattr (SignatureParameter r s) ''s'' = Inr s"
  "getattr (SignatureParameter r s) ''tuple'' = Inr (PyTuple [r, s])"
  by (simp_all add: getattr_def SignatureParameter_def)

lemma load_signature_pair [simp]:
  "load_signature (PyTuple [r, s]) = Inr (SignatureParameter r s)"
  by (simp add: load_signature_def hasattr_def)

lemma small_lib_simps [simp]:
  "inverse_mod small_lib = small_inverse_mod"
  "verifies small_lib = small_verifies"
  "generator_order small_lib (cv, Q) = curve_n cv"
  "get_verifying_pubkey small_lib (cv, d) = (cv, point_mul cv (nat d) (curve_G cv))"
  "from_secret_exponent small_lib d cv =
     (if 1 \<le> d \<and> d < curve_n cv then Inr (cv, d) else Inl LibraryError)"
  by (simp_all add: small_lib_def)


section \<open>Arithmetic of nonce reuse\<close>

text \<open>
  Two signatures \<open>s\<^sub>i k \<equiv> h\<^sub>i + r d\<close> modulo \<open>n\<close> with the same nonce \<open>k\<close> and the same secret
  \<open>d\<close>: the difference of the digests times an inverse of \<open>s\<^sub>1 - s\<^sub>2\<close> is the nonce, and
  the secret follows from the nonce and an inverse of \<open>r\<close>.
\<close>

lemma difference_times_nonce:
  fixes n :: int
  assumes "(s1 * k) mod n = (h1 + r * d) mod n" and "(s2 * k) mod n = (h2 + r * d) mod n"
  shows "((s1 - s2) * k) mod n = (h1 - h2) mod n"
proof -
  have "((s1 - s2) * k) mod n = (s1 * k - s2 * k) mod n"
    by (simp add: algebra_simps)
  also have "\<dots> = ((h1 + r * d) - (h2 + r * d)) mod n"
    using assms by (rule mod_diff_cong)
  finally show ?thesis by simp
qed

lemma nonce_recovered:
  fixes n :: int
  assumes "(s1 * k) mod n = (h1 + r * d) mod n" and "(s2 * k) mod n = (h2 + r * d) mod n"
    and "((s1 - s2) * ci) mod n = 1 mod n"
  shows "((h1 - h2) * ci) mod n = k mod n"
proof -
  have "((h1 - h2) * ci) mod n = (((s1 - s2) * k) * ci) mod n"
    using difference_times_nonce [OF assms(1,2)] by (metis mod_mult_left_eq)
  also have "\<dots> = (k * ((s1 - s2) * ci)) mod n"
    by (simp add: algebra_simps)
  also have "\<dots> = (k * 1) mod n"
    using assms(3) by (metis mod_mult_right_eq)
  finally show ?thesis by simp
qed

lemma secret_recovered:
  fixes n :: int
  assumes "(s1 * k) mod n = (h1 + r * d) mod n" and "(r * ri) mod n = 1 mod n"
  shows "((s1 * k - h1) * ri) mod n = d mod n"
proof -
  have "(s1 * k - h1) mod n = ((h1 + r * d) - h1) mod n"
    using assms(1) by (rule mod_diff_cong) simp
  then have "((s1 * k - h1) * ri) mod n = ((r * d) * ri) mod n"
    by (metis add_diff_cancel_left' mod_mult_left_eq)
  also have "\<dots> = (d * (r * ri)) mod n"
    by (simp add: algebra_simps)
  also have "\<dots> = (d * 1) mod n"
    using assms(2) by (metis mod_mult_right_eq)
  finally show ?thesis by simp
qed

lemma coprime_candidate:
  fixes n :: int
  assumes "(s1 * k) mod n = (h1 + r * d) mod n" and "(s2 * k) mod n = (h2 + r * d) mod n"
    and "coprime (h1 - h2) n"
  shows "coprime (s1 - s2) n"
proof (rule coprimeI)
  fix c assume c: "c dvd s1 - s2" "c dvd n"
  then have "c dvd ((s1 - s2) * k) mod n"
    by (simp add: dvd_mod)
  then have "c dvd (h1 - h2) mod n"
    using difference_times_nonce [OF assms(1,2)] by simp
  with c(2) have "c dvd h1 - h2"
    using dvd_mod_iff by blast
  with c(2) assms(3) show "is_unit c"
    by (meson coprime_def)
qed

section \<open>ECDSA recovery\<close>



lemma try_candidates_first:
  assumes "trial lib self z ri s1 c = Inr (k, d, sk, True)"
  shows "try_candidates lib self z ri s1 (c # cs) = Inr (k, d, sk)"
  using assms by simp




lemma EcDsaSignature_Public_key:
  assumes "load_signature sig = Inr sg" and "load_hash h = Inr hh"
    and "verifies lib pk hh sg = Inr ok"
  shows "EcDsaSignature lib sig h (Public_key pk) curve =
           (if ok
            then Inr \<lparr>rs_sig = sg, rs_h = hh, rs_pubkey = Public_key pk, rs_k = None,
                      rs_x = None, ec_curve = curve, ec_signingkey = None,
                      ec_n = generator_order lib pk\<rparr>
            else Inl SignatureNotVerified)"
  using assms
  by (simp add: EcDsaSignature_def ec_load_pubkey_def pubkey_order_def pubkey_verifies_def)



lemma EcDsaSignature_43:
  assumes "small_verifies (curve43, point_mul curve43 d (curve_G curve43)) h
             (SignatureParameter (PyInt r) (PyInt s)) = Inr True"
  shows "EcDsaSignature small_lib (PyTuple [PyInt r, PyInt s]) (PyInt h) (pubkey43 d) curve43
           = Inr (ecdsa_instance r s h d)"
proof -
  have n: "curve_n curve43 = 31" by (simp add: curve43_def)
  show ?thesis
    unfolding pubkey43_def
    by (subst EcDsaSignature_Public_key [where ok = True])
       (simp_all add: assms n ecdsa_instance_def pubkey43_def)
qed








section \<open>DSA recovery\<close>

text \<open>
  When the difference \<open>s\<^sub>1 - s\<^sub>2\<close> of the two integers is positive, the method recovers
  nonce and secret; when it is negative, \<^verbatim>\<open>inverse\<close> rejects it and the method raises before
  it assigns anything.
\<close>

lemma DsaSignature_reaches_gate:
  assumes "load_signature sig = Inr sg" and "load_hash h = Inr hh"
    and "getattr sg ''tuple'' = Inr t" and "dsa_verify pubkey hh t = Inr ok"
  shows "DsaSignature sig h pubkey =
           (if ok
            then Inr \<lparr>rs_sig = sg, rs_h = hh, rs_pubkey = pubkey, rs_k = None, rs_x = None\<rparr>
            else Inl SignatureNotVerified)"
  using assms by (simp add: DsaSignature_def dsa_load_pubkey_def)

lemma dsa_recover_correct:
  assumes q: "1 < q" and k: "0 < k" "k < q" and x: "0 < x" "x < q"
    and r: "0 \<le> r" "coprime r q" and h: "coprime (h1 - h2) q"
    and s1: "(s1 * k) mod q = (h1 + r * x) mod q"
    and s2: "(s2 * k) mod q = (h2 + r * x) mod q"
    and order: "s2 < s1"
    and self: "rs_sig self = SignatureParameter (PyInt r) (PyInt s1)" "rs_h self = h1"
      "dsa_q (rs_pubkey self) = q"
    and other: "rs_sig other = SignatureParameter (PyInt r) (PyInt s2)" "rs_h other = h2"
      "dsa_q (rs_pubkey other) = q"
  shows "dsa_recover_nonce_reuse self other = (self\<lparr>rs_k := Some k, rs_x := Some x\<rparr>, None)"
proof -
  from q have one: "1 mod q = 1" and nz: "q \<noteq> 0" by simp_all
  from coprime_candidate [OF s1 s2 h] have "gcd (s1 - s2) q = 1"
    by (simp add: coprime_iff_gcd_eq_1)
  with order q obtain ci where ci: "inverse_py (s1 - s2) q = Inr ci" "((s1 - s2) * ci) mod q = 1"
    using inverse_py_correct [of "s1 - s2" q] by auto
  from r q obtain ri where ri: "inverse_py r q = Inr ri" "(r * ri) mod q = 1"
    using inverse_py_correct [of r q] by (auto simp: coprime_iff_gcd_eq_1)
  have "((h1 - h2) * ci) mod q = k mod q"
    using nonce_recovered [OF s1 s2] ci(2) one by simp
  with k have kk: "((h1 - h2) * ci) mod q = k" by simp
  have "((s1 * k - h1) * ri) mod q = x mod q"
    using secret_recovered [OF s1] ri(2) one by simp
  with x have xx: "((k * s1 - h1) * ri) mod q = x" by (simp add: mult.commute)
  have n: "dsa_nonce self other = Inr k"
    using ci(1) kk nz self other by (simp add: dsa_nonce_def py_mod_def)
  have s: "dsa_secret (self\<lparr>rs_k := Some k\<rparr>) = Inr x"
    using ri(1) xx nz self by (simp add: dsa_secret_def py_mod_def)
  show ?thesis
    using n s self other by (simp add: dsa_recover_nonce_reuse_def)
qed

lemma dsa_recover_smaller_s:
  assumes "s1 < s2"
    and "rs_sig self = SignatureParameter (PyInt r) (PyInt s1)"
    and "rs_sig other = SignatureParameter (PyInt r) (PyInt s2)"
    and "dsa_q (rs_pubkey self) = dsa_q (rs_pubkey other)"
  shows "dsa_recover_nonce_reuse self other = (self, Some NoModularInverse)"
proof -
  from assms(1) have "inverse_py (s1 - s2) (dsa_q (rs_pubkey self)) = Inl NoModularInverse"
    by (simp add: inverse_py_negative)
  then have "dsa_nonce self other = Inl NoModularInverse"
    using assms by (simp add: dsa_nonce_def)
  then show ?thesis
    using assms by (simp add: dsa_recover_nonce_reuse_def)
qed

text \<open>
  Claim C2 (DSA recovery correctness). The key \<open>p = 23\<close>, \<open>q = 11\<close>, \<open>g = 2\<close> with secret
  \<open>x = 7\<close> signs the digests \<open>11\<close> and \<open>13\<close> with the nonce \<open>k = 3\<close>: \<open>r = 8\<close>, and
  \<open>s = 4\<close> for the digest \<open>11\<close>, \<open>s = 1\<close> for the digest \<open>13\<close>. Both signatures pass the
  constructor. Called on the instance with \<open>s = 4\<close>, the recovery returns \<open>k = 3\<close> and
  \<open>x = 7\<close>; called on the instance with \<open>s = 1\<close>, it raises the \<^verbatim>\<open>ValueError\<close> of
  \<^verbatim>\<open>inverse\<close>, since \<open>1 - 4\<close> is negative, and recovers nothing.
\<close>

theorem dsa_recovery_fails_when_s1_below_s2:
  "DsaSignature (PyTuple [PyInt 8, PyInt 1]) (PyInt 13) key23 = Inr (dsa_instance 8 1 13 key23)
   \<and> DsaSignature (PyTuple [PyInt 8, PyInt 4]) (PyInt 11) key23 = Inr (dsa_instance 8 4 11 key23)
   \<and> (2 ^ 3 mod 23) mod 11 = (8 :: int)
   \<and> (1 * 3) mod 11 = (13 + 8 * 7) mod (11 :: int)
   \<and> (4 * 3) mod 11 = (11 + 8 * 7) mod (11 :: int)
   \<and> dsa_recover_nonce_reuse (dsa_instance 8 1 13 key23) (dsa_instance 8 4 11 key23)
       = (dsa_instance 8 1 13 key23, Some NoModularInverse)
   \<and> dsa_recover_nonce_reuse (dsa_instance 8 4 11 key23) (dsa_instance 8 1 13 key23)
       = ((dsa_instance 8 4 11 key23)\<lparr>rs_k := Some 3, rs_x := Some 7\<rparr>, None)"
proof -
  have v1: "dsa_verify key23 13 (PyTuple [PyInt 8, PyInt 1]) = Inr True"
    by code_simp
  have v2: "dsa_verify key23 11 (PyTuple [PyInt 8, PyInt 4]) = Inr True"
    by code_simp
  have c1: "DsaSignature (PyTuple [PyInt 8, PyInt 1]) (PyInt 13) key23 = Inr (dsa_instance 8 1 13 key23)"
    using DsaSignature_reaches_gate [OF load_signature_pair _ _ v1] by (simp add: dsa_instance_def)
  have c2: "DsaSignature (PyTuple [PyInt 8, PyInt 4]) (PyInt 11) key23 = Inr (dsa_instance 8 4 11 key23)"
    using DsaSignature_reaches_gate [OF load_signature_pair _ _ v2] by (simp add: dsa_instance_def)
  have n1: "dsa_nonce (dsa_instance 8 1 13 key23) (dsa_instance 8 4 11 key23) = Inl NoModularInverse"
    by code_simp
  have n2: "dsa_nonce (dsa_instance 8 4 11 key23) (dsa_instance 8 1 13 key23) = Inr 3"
    by code_simp
  have x2: "dsa_secret ((dsa_instance 8 4 11 key23)\<lparr>rs_k := Some 3\<rparr>) = Inr 7"
    by code_simp
  have r1: "dsa_recover_nonce_reuse (dsa_instance 8 1 13 key23) (dsa_instance 8 4 11 key23)
       = (dsa_instance 8 1 13 key23, Some NoModularInverse)"
    using n1 by (simp add: dsa_recover_nonce_reuse_def dsa_instance_def)
  have r2: "dsa_recover_nonce_reuse (dsa_instance 8 4 11 key23) (dsa_instance 8 1 13 key23)
       = ((dsa_instance 8 4 11 key23)\<lparr>rs_k := Some 3, rs_x := Some 7\<rparr>, None)"
    using n2 x2 by (simp add: dsa_recover_nonce_reuse_def dsa_instance_def)
  from c1 c2 r1 r2 show ?thesis by simp
qed

section \<open>The fields \<^verbatim>\<open>k\<close> and \<^verbatim>\<open>x\<close>\<close>

text \<open>
  Both constructors leave \<^verbatim>\<open>k\<close> and \<^verbatim>\<open>x\<close> at \<^verbatim>\<open>None\<close>. The ECDSA recovery assigns both
  fields, with the signing key, after the search has succeeded, and nothing otherwise. The
  DSA recovery has a third outcome: the first assignment done and the second one raising.
\<close>

lemma dsa_recover_outcome:
  assumes "dsa_recover_nonce_reuse self other = (self', outcome)"
  shows "(outcome = None \<and> (\<exists>k x. self' = self\<lparr>rs_k := Some k, rs_x := Some x\<rparr>))
       \<or> (outcome \<noteq> None \<and> self' = self)
       \<or> (\<exists>k e. outcome = Some e \<and> self' = self\<lparr>rs_k := Some k\<rparr>
              \<and> dsa_nonce self other = Inr k \<and> dsa_secret self' = Inl e)"
  using assms
  by (auto simp: dsa_recover_nonce_reuse_def Let_def split: if_splits sum.splits bool.splits)


lemma construction_fields:
  "DsaSignature sig h pubkey = Inr inst \<Longrightarrow> rs_k inst = None \<and> rs_x inst = None"
  "EcDsaSignature lib sig h pk curve = Inr einst \<Longrightarrow> rs_k einst = None \<and> rs_x einst = None"
  by (auto simp: DsaSignature_def EcDsaSignature_def bind_eq_Inr split: if_splits)

text \<open>
  Claim C6 (invariant I1, \<^verbatim>\<open>k\<close> and \<^verbatim>\<open>x\<close> set together or not at all). The key
  \<open>p = 19\<close>, \<open>q = 9\<close>, \<open>g = 4\<close> with secret \<open>2\<close> signs the digests \<open>1\<close> and \<open>2\<close> with the nonce
  \<open>7\<close>: \<open>r = 6\<close>, \<open>s = 7\<close> and \<open>s = 2\<close>. Both signatures pass the constructor, which leaves
  the two fields at \<^verbatim>\<open>None\<close>. The recovery computes \<open>k = 7\<close> and stores it in
  \<^verbatim>\<open>self.k\<close>; then \<^verbatim>\<open>inverse(6, 9)\<close> raises, and the method ends with \<^verbatim>\<open>self.k\<close> set and
  \<^verbatim>\<open>self.x\<close> still \<^verbatim>\<open>None\<close>.
\<close>

theorem dsa_recovery_sets_nonce_without_secret:
  "DsaSignature (PyTuple [PyInt 6, PyInt 7]) (PyInt 1) key19 = Inr (dsa_instance 6 7 1 key19)
   \<and> DsaSignature (PyTuple [PyInt 6, PyInt 2]) (PyInt 2) key19 = Inr (dsa_instance 6 2 2 key19)
   \<and> rs_k (dsa_instance 6 7 1 key19) = None \<and> rs_x (dsa_instance 6 7 1 key19) = None
   \<and> dsa_recover_nonce_reuse (dsa_instance 6 7 1 key19) (dsa_instance 6 2 2 key19)
       = ((dsa_instance 6 7 1 key19)\<lparr>rs_k := Some 7\<rparr>, Some NoModularInverse)"
proof -
  have v1: "dsa_verify key19 1 (PyTuple [PyInt 6, PyInt 7]) = Inr True"
    by code_simp
  have v2: "dsa_verify key19 2 (PyTuple [PyInt 6, PyInt 2]) = Inr True"
    by code_simp
  have c1: "DsaSignature (PyTuple [PyInt 6, PyInt 7]) (PyInt 1) key19 = Inr (dsa_instance 6 7 1 key19)"
    using DsaSignature_reaches_gate [OF load_signature_pair _ _ v1] by (simp add: dsa_instance_def)
  have c2: "DsaSignature (PyTuple [PyInt 6, PyInt 2]) (PyInt 2) key19 = Inr (dsa_instance 6 2 2 key19)"
    using DsaSignature_reaches_gate [OF load_signature_pair _ _ v2] by (simp add: dsa_instance_def)
  have n: "dsa_nonce (dsa_instance 6 7 1 key19) (dsa_instance 6 2 2 key19) = Inr 7"
    by code_simp
  have x: "dsa_secret ((dsa_instance 6 7 1 key19)\<lparr>rs_k := Some 7\<rparr>) = Inl NoModularInverse"
    by code_simp
  have r: "dsa_recover_nonce_reuse (dsa_instance 6 7 1 key19) (dsa_instance 6 2 2 key19)
       = ((dsa_instance 6 7 1 key19)\<lparr>rs_k := Some 7\<rparr>, Some NoModularInverse)"
    using n x by (simp add: dsa_recover_nonce_reuse_def dsa_instance_def)
  from c1 c2 r show ?thesis by (simp add: dsa_instance_def)
qed

section \<open>Compatibility of the two instances\<close>

text \<open>
  The DSA recovery compares \<^verbatim>\<open>q\<close> and \<^verbatim>\<open>r\<close> of the two instances first and raises on a
  difference, with \<^verbatim>\<open>self\<close> untouched. The ECDSA recovery reads of \<^verbatim>\<open>other\<close> its digest and
  its \<^verbatim>\<open>s\<close> only.
\<close>

lemma dsa_recover_mismatch:
  assumes "getattr (rs_sig self) ''r'' = Inr r1" and "getattr (rs_sig other) ''r'' = Inr r2"
    and "dsa_q (rs_pubkey self) \<noteq> dsa_q (rs_pubkey other) \<or> r1 \<noteq> r2"
  shows "dsa_recover_nonce_reuse self other = (self, Some IncompatiblePair)"
  using assms by (auto simp: dsa_recover_nonce_reuse_def)

lemma ecdsa_recover_ignores_r:
  assumes "rs_h other' = rs_h other"
    and "int_attr (rs_sig other') ''s'' = int_attr (rs_sig other) ''s''"
  shows "ecdsa_recover_nonce_reuse lib self other' = ecdsa_recover_nonce_reuse lib self other"
  using assms by (simp add: ecdsa_recover_nonce_reuse_def ecdsa_search_def)

text \<open>
  Claim C5 (the two instances must agree on the group order and on \<open>r\<close>). On the small curve
  the key of the secret \<open>7\<close> signs the digest \<open>11\<close> with the nonce \<open>3\<close>, which gives
  \<open>(r, s) = (4, 13)\<close>, and the digest \<open>2\<close> with the nonce \<open>1\<close>, which gives \<open>(2, 16)\<close>. Both
  pass the constructor. The two values of \<open>r\<close> differ, and the ECDSA recovery does not
  raise: it runs the search, accepts the first candidate, and returns with the nonce \<open>28\<close>
  and the secret \<open>3\<close>, which is not the signer's.
\<close>

theorem ecdsa_recovery_accepts_mismatched_r:
  "EcDsaSignature small_lib (PyTuple [PyInt 4, PyInt 13]) (PyInt 11) (pubkey43 7) curve43
     = Inr (ecdsa_instance 4 13 11 7)
   \<and> EcDsaSignature small_lib (PyTuple [PyInt 2, PyInt 16]) (PyInt 2) (pubkey43 7) curve43
     = Inr (ecdsa_instance 2 16 2 7)
   \<and> ecdsa_recover_nonce_reuse small_lib (ecdsa_instance 4 13 11 7) (ecdsa_instance 2 16 2 7)
       = ((ecdsa_instance 4 13 11 7)
            \<lparr>ec_signingkey := Some (curve43, 3), rs_k := Some 28, rs_x := Some 3\<rparr>, None)"
proof -
  have c1: "EcDsaSignature small_lib (PyTuple [PyInt 4, PyInt 13]) (PyInt 11) (pubkey43 7) curve43
     = Inr (ecdsa_instance 4 13 11 7)"
    by (rule EcDsaSignature_43) code_simp
  have c2: "EcDsaSignature small_lib (PyTuple [PyInt 2, PyInt 16]) (PyInt 2) (pubkey43 7) curve43
     = Inr (ecdsa_instance 2 16 2 7)"
    by (rule EcDsaSignature_43) code_simp
  have "ecdsa_search small_lib (ecdsa_instance 4 13 11 7) (ecdsa_instance 2 16 2 7)
          = Inr (28, 3, (curve43, 3))"
    by code_simp
  then have "ecdsa_recover_nonce_reuse small_lib (ecdsa_instance 4 13 11 7) (ecdsa_instance 2 16 2 7)
       = ((ecdsa_instance 4 13 11 7)
            \<lparr>ec_signingkey := Some (curve43, 3), rs_k := Some 28, rs_x := Some 3\<rparr>, None)"
    by (simp add: ecdsa_recover_nonce_reuse_def)
  with c1 c2 show ?thesis by simp
qed

section \<open>The exhausted search\<close>



section \<open>The verification gate\<close>

lemma DsaSignature_success:
  assumes "DsaSignature sig h pubkey = Inr inst"
  shows "load_signature sig = Inr (rs_sig inst) \<and> load_hash h = Inr (rs_h inst)
         \<and> rs_pubkey inst = pubkey
         \<and> (\<exists>t. getattr (rs_sig inst) ''tuple'' = Inr t
                \<and> dsa_verify pubkey (rs_h inst) t = Inr True)"
  using assms
  by (auto simp: DsaSignature_def dsa_load_pubkey_def bind_eq_Inr split: if_splits)

lemma EcDsaSignature_success:
  assumes "EcDsaSignature lib sig h pubkey curve = Inr inst"
  shows "load_signature sig = Inr (rs_sig inst) \<and> load_hash h = Inr (rs_h inst)
         \<and> ec_load_pubkey lib curve pubkey = Inr (rs_pubkey inst)
         \<and> pubkey_order lib (rs_pubkey inst) = Inr (ec_n inst)
         \<and> pubkey_verifies lib (rs_pubkey inst) (rs_h inst) (rs_sig inst) = Inr True"
  using assms
  by (auto simp: EcDsaSignature_def bind_eq_Inr split: if_splits)

lemma EcDsaSignature_reaches_gate:
  assumes "load_signature sig = Inr sg" and "load_hash h = Inr hh"
    and "ec_load_pubkey lib curve pubkey = Inr pk" and "pubkey_order lib pk = Inr n"
    and "pubkey_verifies lib pk hh sg = Inr ok"
  shows "EcDsaSignature lib sig h pubkey curve =
           (if ok
            then Inr \<lparr>rs_sig = sg, rs_h = hh, rs_pubkey = pk, rs_k = None, rs_x = None,
                      ec_curve = curve, ec_signingkey = None, ec_n = n\<rparr>
            else Inl SignatureNotVerified)"
  using assms by (simp add: EcDsaSignature_def)

text \<open>
  Claim C4 (verification gate at construction). When signature and digest load, the public
  key is bound (for ECDSA: it also answers \<^verbatim>\<open>generator.order()\<close>), and the key's
  verification predicate rejects the digest and the signature, either constructor raises the
  \<^verbatim>\<open>AssertionError\<close> of its gate, which the specification calls \<open>ValidationError\<close>. And
  an instance that either constructor returns has a signature that its bound public key
  verifies; so no instance is produced when the predicate rejects.
\<close>

theorem verification_gate:
  "(load_signature sig = Inr sg \<and> load_hash h = Inr hh \<and> getattr sg ''tuple'' = Inr t
      \<and> dsa_verify pubkey hh t = Inr False
    \<longrightarrow> DsaSignature sig h pubkey = Inl SignatureNotVerified)
   \<and> (load_signature sig = Inr sg \<and> load_hash h = Inr hh
      \<and> ec_load_pubkey lib curve epubkey = Inr pk \<and> pubkey_order lib pk = Inr n
      \<and> pubkey_verifies lib pk hh sg = Inr False
    \<longrightarrow> EcDsaSignature lib sig h epubkey curve = Inl SignatureNotVerified)
   \<and> spec_class SignatureNotVerified = Some ValidationError
   \<and> (\<forall>inst. DsaSignature sig h pubkey = Inr inst \<longrightarrow>
         (\<exists>t. getattr (rs_sig inst) ''tuple'' = Inr t
            \<and> dsa_verify (rs_pubkey inst) (rs_h inst) t = Inr True))
   \<and> (\<forall>inst. EcDsaSignature lib sig h epubkey curve = Inr inst \<longrightarrow>
         pubkey_verifies lib (rs_pubkey inst) (rs_h inst) (rs_sig inst) = Inr True)"
proof (intro conjI impI allI)
  assume "load_signature sig = Inr sg \<and> load_hash h = Inr hh \<and> getattr sg ''tuple'' = Inr t
      \<and> dsa_verify pubkey hh t = Inr False"
  then show "DsaSignature sig h pubkey = Inl SignatureNotVerified"
    using DsaSignature_reaches_gate [of sig sg h hh t pubkey False] by simp
next
  assume "load_signature sig = Inr sg \<and> load_hash h = Inr hh
      \<and> ec_load_pubkey lib curve epubkey = Inr pk \<and> pubkey_order lib pk = Inr n
      \<and> pubkey_verifies lib pk hh sg = Inr False"
  then show "EcDsaSignature lib sig h epubkey curve = Inl SignatureNotVerified"
    using EcDsaSignature_reaches_gate [of sig sg h hh lib curve epubkey pk n False] by simp
next
  show "spec_class SignatureNotVerified = Some ValidationError" by simp
next
  fix inst assume "DsaSignature sig h pubkey = Inr inst"
  from DsaSignature_success [OF this]
  show "\<exists>t. getattr (rs_sig inst) ''tuple'' = Inr t
            \<and> dsa_verify (rs_pubkey inst) (rs_h inst) t = Inr True" by auto
next
  fix inst assume "EcDsaSignature lib sig h epubkey curve = Inr inst"
  from EcDsaSignature_success [OF this]
  show "pubkey_verifies lib (rs_pubkey inst) (rs_h inst) (rs_sig inst) = Inr True" by simp
qed

theorem verification_gate_witness:
  "dsa_verify key23 13 (PyTuple [PyInt 8, PyInt 2]) = Inr False
   \<and> DsaSignature (PyTuple [PyInt 8, PyInt 2]) (PyInt 13) key23 = Inl SignatureNotVerified
   \<and> pubkey_verifies small_lib (pubkey43 7) 11 (SignatureParameter (PyInt 4) (PyInt 14)) = Inr False
   \<and> EcDsaSignature small_lib (PyTuple [PyInt 4, PyInt 14]) (PyInt 11) (pubkey43 7) curve43
       = Inl SignatureNotVerified"
proof -
  have v: "dsa_verify key23 13 (PyTuple [PyInt 8, PyInt 2]) = Inr False"
    by code_simp
  have ev: "pubkey_verifies small_lib (pubkey43 7) 11 (SignatureParameter (PyInt 4) (PyInt 14)) = Inr False"
    by code_simp
  have lp: "ec_load_pubkey small_lib curve43 (pubkey43 7) = Inr (pubkey43 7)"
    by (simp add: ec_load_pubkey_def pubkey43_def)
  have po: "pubkey_order small_lib (pubkey43 7) = Inr 31"
    by (simp add: pubkey_order_def pubkey43_def curve43_def)
  have d: "DsaSignature (PyTuple [PyInt 8, PyInt 2]) (PyInt 13) key23 = Inl SignatureNotVerified"
    using v verification_gate [of "PyTuple [PyInt 8, PyInt 2]"
        "SignatureParameter (PyInt 8) (PyInt 2)" "PyInt 13" 13 "PyTuple [PyInt 8, PyInt 2]" key23,
        THEN conjunct1]
    by simp
  have e: "EcDsaSignature small_lib (PyTuple [PyInt 4, PyInt 14]) (PyInt 11) (pubkey43 7) curve43
       = Inl SignatureNotVerified"
    using ev lp po verification_gate [of "PyTuple [PyInt 4, PyInt 14]"
        "SignatureParameter (PyInt 4) (PyInt 14)" "PyInt 11" 11 _ _ small_lib curve43
        "pubkey43 7" "pubkey43 7" 31, THEN conjunct2, THEN conjunct1]
    by simp
  from v d ev e show ?thesis by simp
qed

section \<open>Loading the digest\<close>

text \<open>The conversion is big-endian: the first byte is the most significant.\<close>

lemma bytes_to_long_snoc:
  "bytes_to_long (bs @ [c]) = bytes_to_long bs * 256 + of_char c"
  by (simp add: bytes_to_long_def)

lemma bytes_to_long_big_endian:
  "bytes_to_long bs = (\<Sum>i < length bs. of_char (bs ! i) * 256 ^ (length bs - 1 - i))"
proof (induction bs rule: rev_induct)
  case Nil
  then show ?case by (simp add: bytes_to_long_def)
next
  case (snoc c bs)
  have "(\<Sum>i < length (bs @ [c]). of_char ((bs @ [c]) ! i) * (256::int) ^ (length (bs @ [c]) - 1 - i))
      = (\<Sum>i < length bs. of_char ((bs @ [c]) ! i) * 256 ^ (length bs - i)) + of_char c"
    by simp
  also have "(\<Sum>i < length bs. of_char ((bs @ [c]) ! i) * (256::int) ^ (length bs - i))
      = (\<Sum>i < length bs. (of_char (bs ! i) * 256 ^ (length bs - 1 - i)) * 256)"
  proof (rule sum.cong)
    fix i assume "i \<in> {..<length bs}"
    then have i: "i < length bs" by simp
    then have "length bs - i = Suc (length bs - 1 - i)" by simp
    with i show "of_char ((bs @ [c]) ! i) * (256::int) ^ (length bs - i)
        = (of_char (bs ! i) * 256 ^ (length bs - 1 - i)) * 256"
      by (simp add: nth_append)
  qed simp
  also have "\<dots> = bytes_to_long bs * 256"
    by (simp add: snoc.IH sum_distrib_right)
  finally show ?case by (simp add: bytes_to_long_snoc)
qed

text \<open>
  Claim C8 (digest normalization). \<^verbatim>\<open>_load_hash\<close> returns an integer as it is, converts a
  string or a byte string to the integer it denotes in big-endian order (by the library
  function modelled above), and raises its \<^verbatim>\<open>ValueError\<close>, a \<open>ValidationError\<close> of the
  specification, on a tuple, on \<^verbatim>\<open>None\<close> and on any other object. When the signature
  loads, a constructor fails with the error of \<^verbatim>\<open>_load_hash\<close>, and the digest stored in an
  instance is the one \<^verbatim>\<open>_load_hash\<close> returned.
\<close>

theorem digest_normalization:
  "load_hash (PyInt i) = Inr i
   \<and> load_hash (PyStr s) = Inr (\<Sum>j < length s. of_char (s ! j) * 256 ^ (length s - 1 - j))
   \<and> load_hash (PyBytes b) = Inr (\<Sum>j < length b. of_char (b ! j) * 256 ^ (length b - 1 - j))
   \<and> load_hash (PyTuple xs) = Inl InvalidHashFormat
   \<and> load_hash PyNone = Inl InvalidHashFormat
   \<and> load_hash (PyObject as) = Inl InvalidHashFormat
   \<and> spec_class InvalidHashFormat = Some ValidationError
   \<and> (\<forall>e. load_hash h = Inl e \<and> (\<exists>sg. load_signature sig = Inr sg) \<longrightarrow>
         DsaSignature sig h pubkey = Inl e \<and> EcDsaSignature lib sig h epubkey curve = Inl e)
   \<and> (\<forall>inst. DsaSignature sig h pubkey = Inr inst \<longrightarrow> load_hash h = Inr (rs_h inst))
   \<and> (\<forall>inst. EcDsaSignature lib sig h epubkey curve = Inr inst \<longrightarrow> load_hash h = Inr (rs_h inst))"
proof (intro conjI allI impI)
  fix e assume "load_hash h = Inl e \<and> (\<exists>sg. load_signature sig = Inr sg)"
  then show "DsaSignature sig h pubkey = Inl e" "EcDsaSignature lib sig h epubkey curve = Inl e"
    by (auto simp: DsaSignature_def EcDsaSignature_def)
next
  fix inst assume "DsaSignature sig h pubkey = Inr inst"
  from DsaSignature_success [OF this] show "load_hash h = Inr (rs_h inst)" by simp
next
  fix inst assume "EcDsaSignature lib sig h epubkey curve = Inr inst"
  from EcDsaSignature_success [OF this] show "load_hash h = Inr (rs_h inst)" by simp
qed (simp_all add: bytes_to_long_big_endian)

theorem digest_normalization_witness:
  "load_hash (PyBytes [CHR 0x01, CHR 0x02]) = Inr 258
   \<and> load_hash PyNone = Inl InvalidHashFormat
   \<and> load_signature (PyTuple [PyInt 8, PyInt 4]) = Inr (SignatureParameter (PyInt 8) (PyInt 4))
   \<and> DsaSignature (PyTuple [PyInt 8, PyInt 4]) PyNone key23 = Inl InvalidHashFormat
   \<and> EcDsaSignature small_lib (PyTuple [PyInt 8, PyInt 4]) PyNone (pubkey43 7) curve43
       = Inl InvalidHashFormat
   \<and> DsaSignature (PyTuple [PyInt 8, PyInt 4]) (PyInt 11) key23 = Inr (dsa_instance 8 4 11 key23)
   \<and> load_hash (PyInt 11) = Inr (rs_h (dsa_instance 8 4 11 key23))"
proof -
  note g = digest_normalization [of 11 "[]" "[CHR 0x01, CHR 0x02]" "[]" "[]" PyNone
      "PyTuple [PyInt 8, PyInt 4]" key23 small_lib "pubkey43 7" curve43]
  have b: "load_hash (PyBytes [CHR 0x01, CHR 0x02]) = Inr 258"
    using g [THEN conjunct2, THEN conjunct2, THEN conjunct1]
    by (simp add: lessThan_Suc numeral_2_eq_2)
  have n: "load_hash PyNone = Inl InvalidHashFormat" by simp
  have l: "load_signature (PyTuple [PyInt 8, PyInt 4]) = Inr (SignatureParameter (PyInt 8) (PyInt 4))"
    by simp
  note g8 = g [THEN conjunct2, THEN conjunct2, THEN conjunct2, THEN conjunct2, THEN conjunct2,
      THEN conjunct2, THEN conjunct2, THEN conjunct1, rule_format, of InvalidHashFormat]
  from g8 n l have f: "DsaSignature (PyTuple [PyInt 8, PyInt 4]) PyNone key23 = Inl InvalidHashFormat"
    "EcDsaSignature small_lib (PyTuple [PyInt 8, PyInt 4]) PyNone (pubkey43 7) curve43
       = Inl InvalidHashFormat"
    by simp_all
  have v: "dsa_verify key23 11 (PyTuple [PyInt 8, PyInt 4]) = Inr True"
    by code_simp
  have c: "DsaSignature (PyTuple [PyInt 8, PyInt 4]) (PyInt 11) key23 = Inr (dsa_instance 8 4 11 key23)"
    using DsaSignature_reaches_gate [OF load_signature_pair _ _ v] by (simp add: dsa_instance_def)
  have s: "load_hash (PyInt 11) = Inr (rs_h (dsa_instance 8 4 11 key23))"
    by (rule digest_normalization [of _ _ _ _ _ "PyInt 11" "PyTuple [PyInt 8, PyInt 4]" key23,
          THEN conjunct2, THEN conjunct2, THEN conjunct2, THEN conjunct2, THEN conjunct2,
          THEN conjunct2, THEN conjunct2, THEN conjunct2, THEN conjunct1, rule_format, OF c])
  from b n l f c s show ?thesis by simp
qed

section \<open>Loading the signature\<close>

text \<open>
  An object with the attributes \<^verbatim>\<open>r\<close> and \<^verbatim>\<open>s\<close> is returned as it is, a tuple of two
  values becomes a \<^verbatim>\<open>SignatureParameter\<close>, a value that is neither a tuple nor has the two
  attributes raises the \<^verbatim>\<open>ValueError\<close> of the loader, and a tuple of any other length
  raises \<^verbatim>\<open>TypeError\<close> in the call \<^verbatim>\<open>SignatureParameter(*sig)\<close>.
\<close>

lemma load_signature_object:
  assumes "hasattr sig ''r''" and "hasattr sig ''s''"
  shows "load_signature sig = Inr sig"
  using assms by (simp add: load_signature_def)

lemma load_signature_tuple:
  assumes "length xs \<noteq> 2"
  shows "load_signature (PyTuple xs) = Inl TypeError"
proof -
  have "SignatureParameter_unpacked xs = Inl TypeError"
    using assms by (cases xs rule: SignatureParameter_unpacked.cases) simp_all
  then show ?thesis by (simp add: load_signature_def hasattr_def)
qed

lemma load_signature_other:
  assumes "\<not> (hasattr sig ''r'' \<and> hasattr sig ''s'')" and "\<forall>xs. sig \<noteq> PyTuple xs"
  shows "load_signature sig = Inl InvalidSignatureFormat"
  using assms by (cases sig) (auto simp: load_signature_def)

lemma load_signature_result:
  assumes "load_signature sig = Inr sg"
  shows "(\<exists>r s. getattr sg ''r'' = Inr r \<and> getattr sg ''s'' = Inr s)"
proof (cases "hasattr sig ''r'' \<and> hasattr sig ''s''")
  case True
  with assms have "sg = sig" by (simp add: load_signature_def)
  with True show ?thesis by (auto simp: hasattr_def getattr_def)
next
  case False
  with assms obtain xs where "sig = PyTuple xs" "SignatureParameter_unpacked xs = Inr sg"
    by (cases sig) (auto simp: load_signature_def)
  then obtain r s where "sg = SignatureParameter r s"
    by (cases xs rule: SignatureParameter_unpacked.cases) auto
  then show ?thesis by simp
qed

text \<open>
  Claim C9 (signature-input normalization). The tuple \<^verbatim>\<open>(1, 2, 3)\<close> is neither a pair nor an
  object with \<^verbatim>\<open>r\<close> and \<^verbatim>\<open>s\<close>. The loader does not raise its \<^verbatim>\<open>ValueError\<close> for it: the
  test \<^verbatim>\<open>isinstance(sig, tuple)\<close> lets it through and the call
  \<^verbatim>\<open>SignatureParameter(*sig)\<close> raises \<^verbatim>\<open>TypeError\<close>, in the loader and so in both
  constructors. Nor is an object with \<^verbatim>\<open>r\<close> and \<^verbatim>\<open>s\<close> normalized: the loader returns the
  object itself, and the DSA constructor, which reads \<^verbatim>\<open>self.sig.tuple\<close>, raises
  \<^verbatim>\<open>AttributeError\<close> on a signature that its key verifies.
\<close>

theorem signature_tuple_of_three:
  "load_signature (PyTuple [PyInt 1, PyInt 2, PyInt 3]) = Inl TypeError
   \<and> spec_class TypeError = None
   \<and> DsaSignature (PyTuple [PyInt 1, PyInt 2, PyInt 3]) (PyInt 11) key23 = Inl TypeError
   \<and> EcDsaSignature small_lib (PyTuple [PyInt 1, PyInt 2, PyInt 3]) (PyInt 11) (pubkey43 7) curve43
       = Inl TypeError
   \<and> load_signature (PyObject [(''r'', PyInt 8), (''s'', PyInt 4)])
       = Inr (PyObject [(''r'', PyInt 8), (''s'', PyInt 4)])
   \<and> dsa_verify key23 11 (PyTuple [PyInt 8, PyInt 4]) = Inr True
   \<and> DsaSignature (PyObject [(''r'', PyInt 8), (''s'', PyInt 4)]) (PyInt 11) key23
       = Inl AttributeError"
proof -
  have l: "load_signature (PyTuple [PyInt 1, PyInt 2, PyInt 3]) = Inl TypeError"
    by (simp add: load_signature_tuple)
  have o: "load_signature (PyObject [(''r'', PyInt 8), (''s'', PyInt 4)])
       = Inr (PyObject [(''r'', PyInt 8), (''s'', PyInt 4)])"
    by (simp add: load_signature_def hasattr_def)
  have v: "dsa_verify key23 11 (PyTuple [PyInt 8, PyInt 4]) = Inr True"
    by code_simp
  have a: "getattr (PyObject [(''r'', PyInt 8), (''s'', PyInt 4)]) ''tuple'' = Inl AttributeError"
    by (simp add: getattr_def)
  from l o v a show ?thesis
    by (simp add: DsaSignature_def EcDsaSignature_def dsa_load_pubkey_def)
qed

section \<open>Loading the ECDSA public key\<close>

text \<open>
  Claim C10, as stated (an argument that is neither a \<^verbatim>\<open>Public_key\<close> nor a string is
  returned unchanged, so construction proceeds to the verification call), fails for an object
  that has no \<^verbatim>\<open>generator\<close>: the loader returns it unchanged, its \<^verbatim>\<open>verifies\<close> would
  accept the signature, and the constructor raises \<^verbatim>\<open>AttributeError\<close> at
  \<^verbatim>\<open>self.n = self.pubkey.generator.order()\<close>, before the verification call.
\<close>

theorem key_object_without_generator:
  "ec_load_pubkey small_lib curve43
       (KeyObject \<lparr>ko_order = None, ko_verifies = Some (\<lambda>h sig. Inr True)\<rparr>)
     = Inr (KeyObject \<lparr>ko_order = None, ko_verifies = Some (\<lambda>h sig. Inr True)\<rparr>)
   \<and> pubkey_verifies small_lib
       (KeyObject \<lparr>ko_order = None, ko_verifies = Some (\<lambda>h sig. Inr True)\<rparr>) 11
       (SignatureParameter (PyInt 4) (PyInt 13)) = Inr True
   \<and> EcDsaSignature small_lib (PyTuple [PyInt 4, PyInt 13]) (PyInt 11)
       (KeyObject \<lparr>ko_order = None, ko_verifies = Some (\<lambda>h sig. Inr True)\<rparr>) curve43
     = Inl AttributeError"
  by (simp add: ec_load_pubkey_def pubkey_verifies_def EcDsaSignature_def pubkey_order_def)

text \<open>
  Claim C10, amended. \<^verbatim>\<open>_load_pubkey\<close> returns an argument that is neither a
  \<^verbatim>\<open>Public_key\<close> nor a string or byte string unchanged and without raising. When signature
  and digest load, the constructor then reads \<^verbatim>\<open>generator.order()\<close> of the unvalidated
  object, raising \<^verbatim>\<open>AttributeError\<close> if the object does not have it, and after that calls
  the object's own \<^verbatim>\<open>verifies\<close>, whose answer decides the construction; the instance holds
  the object as its public key.
\<close>

theorem load_pubkey_passthrough:
  "ec_load_pubkey lib curve (KeyObject obj) = Inr (KeyObject obj)
   \<and> (load_signature sig = Inr sg \<and> load_hash h = Inr hh \<longrightarrow>
        EcDsaSignature lib sig h (KeyObject obj) curve =
          (case ko_order obj of
             None \<Rightarrow> Inl AttributeError
           | Some n \<Rightarrow>
               bind (pubkey_verifies lib (KeyObject obj) hh sg) (\<lambda>ok.
                 if ok
                 then Inr \<lparr>rs_sig = sg, rs_h = hh, rs_pubkey = KeyObject obj, rs_k = None,
                           rs_x = None, ec_curve = curve, ec_signingkey = None, ec_n = n\<rparr>
                 else Inl SignatureNotVerified)))"
  by (auto simp: ec_load_pubkey_def EcDsaSignature_def pubkey_order_def split: option.splits)

theorem load_pubkey_passthrough_witness:
  "load_signature (PyTuple [PyInt 4, PyInt 13]) = Inr (SignatureParameter (PyInt 4) (PyInt 13))
   \<and> load_hash (PyInt 11) = Inr 11
   \<and> EcDsaSignature small_lib (PyTuple [PyInt 4, PyInt 13]) (PyInt 11)
       (KeyObject \<lparr>ko_order = Some 31, ko_verifies = Some (\<lambda>h sig. Inr True)\<rparr>) curve43
     = Inr \<lparr>rs_sig = SignatureParameter (PyInt 4) (PyInt 13), rs_h = 11,
            rs_pubkey = KeyObject \<lparr>ko_order = Some 31, ko_verifies = Some (\<lambda>h sig. Inr True)\<rparr>,
            rs_k = None, rs_x = None, ec_curve = curve43, ec_signingkey = None, ec_n = 31\<rparr>"
  using load_pubkey_passthrough [of small_lib curve43
      "\<lparr>ko_order = Some 31, ko_verifies = Some (\<lambda>h sig. Inr True)\<rparr>"
      "PyTuple [PyInt 4, PyInt 13]" "SignatureParameter (PyInt 4) (PyInt 13)" "PyInt 11" 11]
  by (simp add: pubkey_verifies_def)

end
